theory Spec2Isabelle
  imports Main
begin

section \<open>Object model of project.cpp\<close>

text \<open>
  The program builds \<^verbatim>\<open>Student\<close> objects with \<^verbatim>\<open>std::make_shared\<close> and hands
  them around as \<^verbatim>\<open>std::shared_ptr<Student>\<close>. Several owners may hold the same
  object, so objects live in an explicit heap and a shared pointer is an address
  into it (or null). The heap is the list of all objects allocated so far; the
  address of an object is its position, and \<^verbatim>\<open>make_shared\<close> allocates at the end.
\<close>

datatype shared_ptr = nullptr | ptr nat

text \<open>
  The three concrete classes below \<^verbatim>\<open>Student\<close>. A \<^verbatim>\<open>BasicStudent\<close> stores its
  members \<^verbatim>\<open>categories\<close> and \<^verbatim>\<open>testToSkipLevels\<close> inside the object (the
  vector is a member, not a pointer to shared storage); a decorator stores the
  member \<^verbatim>\<open>baseStudent\<close>. \<^verbatim>\<open>TutoringSupportDecorator\<close> derives from
  \<^verbatim>\<open>StudentDecorator\<close> and adds no member.
\<close>

datatype object =
    BasicStudent "string list" bool
  | StudentDecorator shared_ptr
  | TutoringSupportDecorator shared_ptr

type_synonym heap = "object list"

text \<open>
  Dereferencing \<^verbatim>\<open>p->\<close>. A null pointer, or an address at which nothing has been
  allocated, has no object: the C++ behaviour is undefined, the model answers
  \<open>None\<close>.
\<close>

fun deref :: "heap \<Rightarrow> shared_ptr \<Rightarrow> object option" where
  "deref h nullptr = None"
| "deref h (ptr a) = (if a < length h then Some (h ! a) else None)"

definition make_shared :: "heap \<Rightarrow> object \<Rightarrow> shared_ptr \<times> heap" where
  "make_shared h obj = (ptr (length h), h @ [obj])"

subsection \<open>The virtual member functions of Student\<close>

text \<open>
  A call \<^verbatim>\<open>p->f(...)\<close> dispatches on the dynamic class of the object at \<open>p\<close>. The
  decorator's members call the same virtual function on \<^verbatim>\<open>baseStudent\<close>, so each
  function below follows the chain of \<^verbatim>\<open>baseStudent\<close> pointers through the heap.
  The result is \<open>None\<close> when the chain runs into a pointer without an object, and
  also when it never ends.

  \<^verbatim>\<open>BasicStudent::clone\<close> is \<^verbatim>\<open>make_shared<BasicStudent>(*this)\<close>: the implicit
  copy constructor copies both members into a newly allocated object.
  \<^verbatim>\<open>TutoringSupportDecorator\<close> does not override \<^verbatim>\<open>clone\<close>,
  \<^verbatim>\<open>hasTestToSkipLevels\<close> and \<^verbatim>\<open>getCategories\<close>: it inherits the bodies of
  \<^verbatim>\<open>StudentDecorator\<close>.
\<close>

partial_function (option) clone :: "heap \<Rightarrow> shared_ptr \<Rightarrow> (shared_ptr \<times> heap) option" where
  "clone h p =
     (case deref h p of
        None \<Rightarrow> None
      | Some (BasicStudent categories testToSkipLevels) \<Rightarrow>
          Some (make_shared h (BasicStudent categories testToSkipLevels))
      | Some (StudentDecorator baseStudent) \<Rightarrow> clone h baseStudent
      | Some (TutoringSupportDecorator baseStudent) \<Rightarrow> clone h baseStudent)"

partial_function (option) canTakeCourse :: "heap \<Rightarrow> shared_ptr \<Rightarrow> string \<Rightarrow> bool option" where
  "canTakeCourse h p course =
     (case deref h p of
        None \<Rightarrow> None
      | Some (BasicStudent categories testToSkipLevels) \<Rightarrow> Some True
      | Some (StudentDecorator baseStudent) \<Rightarrow> canTakeCourse h baseStudent course
      | Some (TutoringSupportDecorator baseStudent) \<Rightarrow> Some True)"

partial_function (option) hasTestToSkipLevels :: "heap \<Rightarrow> shared_ptr \<Rightarrow> bool option" where
  "hasTestToSkipLevels h p =
     (case deref h p of
        None \<Rightarrow> None
      | Some (BasicStudent categories testToSkipLevels) \<Rightarrow> Some testToSkipLevels
      | Some (StudentDecorator baseStudent) \<Rightarrow> hasTestToSkipLevels h baseStudent
      | Some (TutoringSupportDecorator baseStudent) \<Rightarrow> hasTestToSkipLevels h baseStudent)"

partial_function (option) getCategories :: "heap \<Rightarrow> shared_ptr \<Rightarrow> string list option" where
  "getCategories h p =
     (case deref h p of
        None \<Rightarrow> None
      | Some (BasicStudent categories testToSkipLevels) \<Rightarrow> Some categories
      | Some (StudentDecorator baseStudent) \<Rightarrow> getCategories h baseStudent
      | Some (TutoringSupportDecorator baseStudent) \<Rightarrow> getCategories h baseStudent)"

declare clone.simps [code]
declare canTakeCourse.simps [code]
declare hasTestToSkipLevels.simps [code]
declare getCategories.simps [code]

text \<open>
  A pointer is a Student of this program when a finite chain of decorators leads
  from it to a \<^verbatim>\<open>BasicStudent\<close>: a decorator is constructed from an existing
  pointer and \<^verbatim>\<open>baseStudent\<close> is never assigned afterwards, so every Student the
  program can construct has this shape. \<open>innermost h p a\<close> says that the chain
  from \<open>p\<close> ends at the \<^verbatim>\<open>BasicStudent\<close> at address \<open>a\<close>.
\<close>

inductive innermost :: "heap \<Rightarrow> shared_ptr \<Rightarrow> nat \<Rightarrow> bool" where
  basic: "deref h (ptr a) = Some (BasicStudent categories testToSkipLevels) \<Longrightarrow>
            innermost h (ptr a) a"
| decorator: "deref h p = Some (StudentDecorator baseStudent) \<Longrightarrow>
            innermost h baseStudent a \<Longrightarrow> innermost h p a"
| tutoring: "deref h p = Some (TutoringSupportDecorator baseStudent) \<Longrightarrow>
            innermost h baseStudent a \<Longrightarrow> innermost h p a"

code_pred innermost .

text \<open>
  Wrapping a pointer in decorators, outermost layer last, as \<^verbatim>\<open>main\<close> does with
  \<^verbatim>\<open>std::make_shared<TutoringSupportDecorator>(student1)\<close>. The flag of a layer
  says whether it is a \<^verbatim>\<open>TutoringSupportDecorator\<close> (\<open>True\<close>) or a plain
  \<^verbatim>\<open>StudentDecorator\<close> (\<open>False\<close>).
\<close>

fun decorate :: "bool list \<Rightarrow> heap \<Rightarrow> shared_ptr \<Rightarrow> shared_ptr \<times> heap" where
  "decorate [] h p = (p, h)"
| "decorate (tutoring # layers) h p =
     (case make_shared h (if tutoring then TutoringSupportDecorator p else StudentDecorator p) of
        (q, h') \<Rightarrow> decorate layers h' q)"

subsection \<open>Factory and builder\<close>

text \<open>\<^verbatim>\<open>BasicStudentFactory\<close> has no members, so its \<^verbatim>\<open>this\<close> carries nothing.\<close>

definition createStudent :: "heap \<Rightarrow> string list \<Rightarrow> bool \<Rightarrow> shared_ptr \<times> heap" where
  "createStudent h categories testToSkipLevels =
     make_shared h (BasicStudent categories testToSkipLevels)"

text \<open>
  A \<^verbatim>\<open>BasicStudentBuilder\<close> is a mutable object and its setters return
  \<^verbatim>\<open>*this\<close>, a reference to the object they were called on. Builders therefore
  live in a store of their own, addressed by \<open>nat\<close>; a setter returns the address
  it was called on together with the updated store.
\<close>

record BasicStudentBuilder =
  categories :: "string list"
  testToSkipLevels :: bool

text \<open>The default member initialisers: an empty vector and \<^verbatim>\<open>false\<close>.\<close>

definition BasicStudentBuilder_init :: BasicStudentBuilder where
  "BasicStudentBuilder_init = \<lparr>categories = [], testToSkipLevels = False\<rparr>"

type_synonym builders = "nat \<Rightarrow> BasicStudentBuilder"

definition setCategories :: "builders \<Rightarrow> nat \<Rightarrow> string list \<Rightarrow> nat \<times> builders" where
  "setCategories bs this cs = (this, bs(this := (bs this)\<lparr>categories := cs\<rparr>))"

definition setTestToSkipLevels :: "builders \<Rightarrow> nat \<Rightarrow> bool \<Rightarrow> nat \<times> builders" where
  "setTestToSkipLevels bs this t = (this, bs(this := (bs this)\<lparr>testToSkipLevels := t\<rparr>))"

definition build :: "heap \<Rightarrow> builders \<Rightarrow> nat \<Rightarrow> shared_ptr \<times> heap" where
  "build h bs this =
     make_shared h (BasicStudent (categories (bs this)) (testToSkipLevels (bs this)))"

subsection \<open>The University singleton\<close>

text \<open>
  \<^verbatim>\<open>University\<close> has the one member \<^verbatim>\<open>students\<close>, and the program has the one
  instance that \<^verbatim>\<open>getInstance\<close> returns. \<^verbatim>\<open>getStudents\<close> returns the vector by
  value: the caller receives a vector object of its own, copy-constructed from
  the member. To tell that object from the member, the state holds the vector
  objects handed out so far; \<^verbatim>\<open>getStudents\<close> returns the position of the new one.
\<close>

record University =
  students :: "shared_ptr list"

definition University_init :: University where
  "University_init = \<lparr>students = []\<rparr>"

record state =
  university :: University
  vectors :: "shared_ptr list list"

definition addStudent :: "state \<Rightarrow> shared_ptr \<Rightarrow> state" where
  "addStudent s student =
     s\<lparr>university := (university s)\<lparr>students := students (university s) @ [student]\<rparr>\<rparr>"

definition getStudents :: "state \<Rightarrow> nat \<times> state" where
  "getStudents s =
     (length (vectors s), s\<lparr>vectors := vectors s @ [students (university s)]\<rparr>)"

text \<open>A sequence of calls on the singleton, in program order.\<close>

datatype call = AddStudent shared_ptr | GetStudents

fun run :: "state \<Rightarrow> call list \<Rightarrow> state" where
  "run s [] = s"
| "run s (AddStudent student # cs) = run (addStudent s student) cs"
| "run s (GetStudents # cs) = run (snd (getStudents s)) cs"

subsection \<open>The objects of main\<close>

text \<open>
  The heap after \<^verbatim>\<open>main\<close> has run \<^verbatim>\<open>factory.createStudent({"Math", "Physics"}, true)\<close>
  and \<^verbatim>\<open>std::make_shared<TutoringSupportDecorator>(student1)\<close>: \<^verbatim>\<open>student1\<close> is
  \<open>ptr 0\<close> and \<^verbatim>\<open>tutoredStudent1\<close> is \<open>ptr 1\<close>.
\<close>

definition main_heap :: heap where
  "main_heap = [BasicStudent [''Math'', ''Physics''] True, TutoringSupportDecorator (ptr 0)]"

section \<open>Basic facts\<close>

lemma clone_BasicStudent:
  "deref h p = Some (BasicStudent c t) \<Longrightarrow> clone h p = Some (make_shared h (BasicStudent c t))"
  by (subst clone.simps) simp

lemma clone_StudentDecorator:
  "deref h p = Some (StudentDecorator b) \<Longrightarrow> clone h p = clone h b"
  by (subst clone.simps) simp

lemma clone_TutoringSupportDecorator:
  "deref h p = Some (TutoringSupportDecorator b) \<Longrightarrow> clone h p = clone h b"
  by (subst clone.simps) simp

lemma canTakeCourse_BasicStudent:
  "deref h p = Some (BasicStudent c t) \<Longrightarrow> canTakeCourse h p course = Some True"
  by (subst canTakeCourse.simps) simp

lemma canTakeCourse_StudentDecorator:
  "deref h p = Some (StudentDecorator b) \<Longrightarrow> canTakeCourse h p course = canTakeCourse h b course"
  by (subst canTakeCourse.simps) simp

lemma canTakeCourse_TutoringSupportDecorator:
  "deref h p = Some (TutoringSupportDecorator b) \<Longrightarrow> canTakeCourse h p course = Some True"
  by (subst canTakeCourse.simps) simp

lemma hasTestToSkipLevels_BasicStudent:
  "deref h p = Some (BasicStudent c t) \<Longrightarrow> hasTestToSkipLevels h p = Some t"
  by (subst hasTestToSkipLevels.simps) simp

lemma hasTestToSkipLevels_StudentDecorator:
  "deref h p = Some (StudentDecorator b) \<Longrightarrow> hasTestToSkipLevels h p = hasTestToSkipLevels h b"
  by (subst hasTestToSkipLevels.simps) simp

lemma hasTestToSkipLevels_TutoringSupportDecorator:
  "deref h p = Some (TutoringSupportDecorator b) \<Longrightarrow>
     hasTestToSkipLevels h p = hasTestToSkipLevels h b"
  by (subst hasTestToSkipLevels.simps) simp

lemma getCategories_BasicStudent:
  "deref h p = Some (BasicStudent c t) \<Longrightarrow> getCategories h p = Some c"
  by (subst getCategories.simps) simp

lemma getCategories_StudentDecorator:
  "deref h p = Some (StudentDecorator b) \<Longrightarrow> getCategories h p = getCategories h b"
  by (subst getCategories.simps) simp

lemma getCategories_TutoringSupportDecorator:
  "deref h p = Some (TutoringSupportDecorator b) \<Longrightarrow> getCategories h p = getCategories h b"
  by (subst getCategories.simps) simp

lemma deref_new: "deref (h @ [obj]) (ptr (length h)) = Some obj"
  by simp

lemma deref_old: "deref h p = Some obj \<Longrightarrow> deref (h @ h') p = Some obj"
  by (cases p) (auto simp: nth_append split: if_splits)

lemma deref_valid:
  "deref h (ptr a) = Some obj \<Longrightarrow> a < length h \<and> h ! a = obj"
  by (simp split: if_splits)

subsection \<open>Chains of decorators\<close>

lemma innermost_basic:
  "innermost h p a \<Longrightarrow> \<exists>c t. deref h (ptr a) = Some (BasicStudent c t)"
  by (induction rule: innermost.induct) auto

lemma innermost_clone: "innermost h p a \<Longrightarrow> clone h p = clone h (ptr a)"
  by (induction rule: innermost.induct)
     (simp_all add: clone_StudentDecorator clone_TutoringSupportDecorator)

lemma innermost_getCategories:
  "innermost h p a \<Longrightarrow> getCategories h p = getCategories h (ptr a)"
  by (induction rule: innermost.induct)
     (simp_all add: getCategories_StudentDecorator getCategories_TutoringSupportDecorator)

lemma innermost_hasTestToSkipLevels:
  "innermost h p a \<Longrightarrow> hasTestToSkipLevels h p = hasTestToSkipLevels h (ptr a)"
  by (induction rule: innermost.induct)
     (simp_all add: hasTestToSkipLevels_StudentDecorator
        hasTestToSkipLevels_TutoringSupportDecorator)

lemma innermost_canTakeCourse:
  "innermost h p a \<Longrightarrow> canTakeCourse h p course = Some True"
  by (induction rule: innermost.induct)
     (simp_all add: canTakeCourse_BasicStudent canTakeCourse_StudentDecorator
        canTakeCourse_TutoringSupportDecorator)

text \<open>Allocation leaves every existing Student what it was.\<close>

lemma innermost_append: "innermost h p a \<Longrightarrow> innermost (h @ h') p a"
proof (induction rule: innermost.induct)
  case (basic h a c t)
  then show ?case using deref_old innermost.basic by blast
next
  case (decorator h p b a)
  then show ?case using deref_old innermost.decorator by blast
next
  case (tutoring h p b a)
  then show ?case using deref_old innermost.tutoring by blast
qed

text \<open>Every stack of decorators built over a Student is again a Student, with the same
  innermost \<^verbatim>\<open>BasicStudent\<close>.\<close>

lemma innermost_decorate:
  "innermost h p a \<Longrightarrow> decorate layers h p = (q, h') \<Longrightarrow> innermost h' q a"
proof (induction layers arbitrary: h p)
  case Nil
  then show ?case by simp
next
  case (Cons l layers)
  let ?obj = "if l then TutoringSupportDecorator p else StudentDecorator p"
  have old: "innermost (h @ [?obj]) p a"
    using Cons.prems(1) by (rule innermost_append)
  have new: "innermost (h @ [?obj]) (ptr (length h)) a"
  proof (cases l)
    case True
    then have "deref (h @ [?obj]) (ptr (length h)) = Some (TutoringSupportDecorator p)"
      by simp
    then show ?thesis using old by (rule innermost.tutoring)
  next
    case False
    then have "deref (h @ [?obj]) (ptr (length h)) = Some (StudentDecorator p)"
      by simp
    then show ?thesis using old by (rule innermost.decorator)
  qed
  from Cons.prems(2) have "decorate layers (h @ [?obj]) (ptr (length h)) = (q, h')"
    by (simp add: make_shared_def)
  with new show ?case by (rule Cons.IH)
qed

subsection \<open>The registry\<close>

text \<open>No call on the singleton writes to a vector object that was handed out earlier.\<close>

lemma run_vectors:
  "i < length (vectors s) \<Longrightarrow>
     i < length (vectors (run s cs)) \<and> vectors (run s cs) ! i = vectors s ! i"
proof (induction cs arbitrary: s)
  case Nil
  then show ?case by simp
next
  case (Cons c cs)
  show ?case
  proof (cases c)
    case (AddStudent student)
    have "i < length (vectors (addStudent s student))"
      using Cons.prems by (simp add: addStudent_def)
    from Cons.IH [OF this] show ?thesis
      by (simp add: AddStudent addStudent_def)
  next
    case GetStudents
    have "i < length (vectors (snd (getStudents s)))"
      using Cons.prems by (simp add: getStudents_def)
    from Cons.IH [OF this] show ?thesis
      using Cons.prems by (simp add: GetStudents getStudents_def nth_append)
  qed
qed

lemma run_students:
  "students (university (run s cs)) = students (university s) @ [p. AddStudent p \<leftarrow> cs]"
proof (induction cs arbitrary: s)
  case Nil
  then show ?case by simp
next
  case (Cons c cs)
  then show ?case
    by (cases c) (simp_all add: addStudent_def getStudents_def)
qed

lemma foldl_addStudent:
  "foldl addStudent s ps =
     s\<lparr>university := (university s)\<lparr>students := students (university s) @ ps\<rparr>\<rparr>"
  by (induction ps arbitrary: s) (simp_all add: addStudent_def)

section \<open>The claims\<close>

text \<open>
  C1. When \<open>p\<close> is a \<^verbatim>\<open>StudentDecorator\<close> or a \<^verbatim>\<open>TutoringSupportDecorator\<close> wrapping
  \<open>S\<close>, \<^verbatim>\<open>p->clone()\<close> is the result of \<^verbatim>\<open>S->clone()\<close>. When \<open>S\<close> is a Student (a
  chain ending at a \<^verbatim>\<open>BasicStudent\<close>), that result is a newly allocated
  \<^verbatim>\<open>BasicStudent\<close>, so it carries no decoration, and its two members are the
  categories and the flag that \<open>S\<close> reports.
\<close>

theorem decorator_clone_delegates:
  assumes "deref h p = Some (StudentDecorator S) \<or> deref h p = Some (TutoringSupportDecorator S)"
  shows "clone h p = clone h S \<and>
    (innermost h S a \<longrightarrow>
      (\<exists>c t. clone h p = Some (ptr (length h), h @ [BasicStudent c t]) \<and>
         getCategories h S = Some c \<and> hasTestToSkipLevels h S = Some t))"
proof (intro conjI impI)
  show "clone h p = clone h S"
    using assms clone_StudentDecorator clone_TutoringSupportDecorator by blast
next
  assume S: "innermost h S a"
  have eq: "clone h p = clone h S"
    using assms clone_StudentDecorator clone_TutoringSupportDecorator by blast
  obtain c t where b: "deref h (ptr a) = Some (BasicStudent c t)"
    using innermost_basic [OF S] by blast
  have "clone h S = Some (make_shared h (BasicStudent c t))"
    using innermost_clone [OF S] clone_BasicStudent [OF b] by simp
  moreover have "getCategories h S = Some c"
    using innermost_getCategories [OF S] getCategories_BasicStudent [OF b] by simp
  moreover have "hasTestToSkipLevels h S = Some t"
    using innermost_hasTestToSkipLevels [OF S] hasTestToSkipLevels_BasicStudent [OF b]
    by simp
  ultimately show "\<exists>c t. clone h p = Some (ptr (length h), h @ [BasicStudent c t]) \<and>
         getCategories h S = Some c \<and> hasTestToSkipLevels h S = Some t"
    using eq by (simp add: make_shared_def)
qed

theorem decorator_clone_delegates_witness:
  "(deref main_heap (ptr 1) = Some (StudentDecorator (ptr 0)) \<or>
    deref main_heap (ptr 1) = Some (TutoringSupportDecorator (ptr 0))) \<and>
   innermost main_heap (ptr 0) 0 \<and>
   clone main_heap (ptr 1) = clone main_heap (ptr 0) \<and>
   (\<exists>c t. clone main_heap (ptr 1) = Some (ptr (length main_heap), main_heap @ [BasicStudent c t]) \<and>
      getCategories main_heap (ptr 0) = Some c \<and>
      hasTestToSkipLevels main_heap (ptr 0) = Some t)"
proof -
  have d: "deref main_heap (ptr 1) = Some (StudentDecorator (ptr 0)) \<or>
           deref main_heap (ptr 1) = Some (TutoringSupportDecorator (ptr 0))"
    by (simp add: main_heap_def)
  have i: "innermost main_heap (ptr 0) 0"
    by (rule innermost.basic [of _ _ "[''Math'', ''Physics'']" True]) (simp add: main_heap_def)
  show ?thesis using d i decorator_clone_delegates [OF d, of 0] by blast
qed

text \<open>
  C2. When \<open>p\<close> is a \<^verbatim>\<open>TutoringSupportDecorator\<close>, \<^verbatim>\<open>p->canTakeCourse(course)\<close>
  returns true for every course name, the empty one included. Nothing is assumed
  about the wrapped pointer \<open>S\<close>, so the answer does not depend on what \<open>S\<close> would
  answer.
\<close>

theorem tutoring_canTakeCourse:
  assumes "deref h p = Some (TutoringSupportDecorator S)"
  shows "canTakeCourse h p course = Some True"
  using assms by (rule canTakeCourse_TutoringSupportDecorator)

theorem tutoring_canTakeCourse_witness:
  "deref main_heap (ptr 1) = Some (TutoringSupportDecorator (ptr 0)) \<and>
   canTakeCourse main_heap (ptr 1) [] = Some True \<and>
   canTakeCourse main_heap (ptr 1) ''Advanced Quantum Mechanics'' = Some True"
proof -
  have d: "deref main_heap (ptr 1) = Some (TutoringSupportDecorator (ptr 0))"
    by (simp add: main_heap_def)
  show ?thesis
    using d tutoring_canTakeCourse [OF d, of "[]"]
      tutoring_canTakeCourse [OF d, of "''Advanced Quantum Mechanics''"]
    by blast
qed

text \<open>
  C3. When \<open>p\<close> is a \<^verbatim>\<open>TutoringSupportDecorator\<close> wrapping \<open>S\<close>, \<^verbatim>\<open>getCategories\<close> and
  \<^verbatim>\<open>hasTestToSkipLevels\<close> on \<open>p\<close> give what they give on \<open>S\<close>; and when \<open>S\<close> is a
  Student, both calls on \<open>p\<close> return a value.
\<close>

theorem tutoring_passes_through:
  assumes "deref h p = Some (TutoringSupportDecorator S)"
  shows "getCategories h p = getCategories h S \<and>
         hasTestToSkipLevels h p = hasTestToSkipLevels h S \<and>
         (innermost h S a \<longrightarrow>
            (\<exists>c t. getCategories h p = Some c \<and> hasTestToSkipLevels h p = Some t))"
proof (intro conjI impI)
  show g: "getCategories h p = getCategories h S"
    using assms by (rule getCategories_TutoringSupportDecorator)
  show t: "hasTestToSkipLevels h p = hasTestToSkipLevels h S"
    using assms by (rule hasTestToSkipLevels_TutoringSupportDecorator)
  assume S: "innermost h S a"
  obtain c t where b: "deref h (ptr a) = Some (BasicStudent c t)"
    using innermost_basic [OF S] by blast
  have "getCategories h S = Some c"
    using innermost_getCategories [OF S] getCategories_BasicStudent [OF b] by simp
  moreover have "hasTestToSkipLevels h S = Some t"
    using innermost_hasTestToSkipLevels [OF S] hasTestToSkipLevels_BasicStudent [OF b]
    by simp
  ultimately show "\<exists>c t. getCategories h p = Some c \<and> hasTestToSkipLevels h p = Some t"
    using g t by simp
qed

theorem tutoring_passes_through_witness:
  "deref main_heap (ptr 1) = Some (TutoringSupportDecorator (ptr 0)) \<and>
   innermost main_heap (ptr 0) 0 \<and>
   getCategories main_heap (ptr 1) = getCategories main_heap (ptr 0) \<and>
   hasTestToSkipLevels main_heap (ptr 1) = hasTestToSkipLevels main_heap (ptr 0) \<and>
   (\<exists>c t. getCategories main_heap (ptr 1) = Some c \<and>
           hasTestToSkipLevels main_heap (ptr 1) = Some t)"
proof -
  have d: "deref main_heap (ptr 1) = Some (TutoringSupportDecorator (ptr 0))"
    by (simp add: main_heap_def)
  have i: "innermost main_heap (ptr 0) 0"
    by (rule innermost.basic [of _ _ "[''Math'', ''Physics'']" True]) (simp add: main_heap_def)
  show ?thesis using d i tutoring_passes_through [OF d, of 0] by blast
qed

text \<open>
  C4. For every category sequence \<open>C\<close> (empty, with duplicates, in any order) and
  every flag \<open>F\<close>, the pointer that \<^verbatim>\<open>createStudent(C, F)\<close> returns is to a
  \<^verbatim>\<open>BasicStudent\<close> whose \<^verbatim>\<open>getCategories()\<close> is \<open>C\<close> and whose
  \<^verbatim>\<open>hasTestToSkipLevels()\<close> is \<open>F\<close>.
\<close>

theorem createStudent_roundtrip:
  "case createStudent h C F of
     (p, h') \<Rightarrow> deref h' p = Some (BasicStudent C F) \<and>
                getCategories h' p = Some C \<and> hasTestToSkipLevels h' p = Some F"
proof -
  have d: "deref (h @ [BasicStudent C F]) (ptr (length h)) = Some (BasicStudent C F)"
    by simp
  show ?thesis
    unfolding createStudent_def make_shared_def
    using d getCategories_BasicStudent [OF d] hasTestToSkipLevels_BasicStudent [OF d]
    by simp
qed

text \<open>
  C5. \<^verbatim>\<open>getStudents()\<close> hands out a new vector object \<open>i\<close> holding the registry's
  current contents and leaves the registry as it was. Whatever calls \<open>cs\<close> follow on
  the singleton (\<^verbatim>\<open>addStudent\<close> and further \<^verbatim>\<open>getStudents\<close>, in any order), the
  vector \<open>i\<close> still holds those contents, length and elements, while the registry
  itself has grown by the students added.
\<close>

theorem getStudents_snapshot:
  "case getStudents s of
     (i, s1) \<Rightarrow>
       i = length (vectors s) \<and>
       university s1 = university s \<and>
       vectors s1 ! i = students (university s) \<and>
       vectors (run s1 cs) ! i = students (university s) \<and>
       students (university (run s1 cs)) = students (university s) @ [p. AddStudent p \<leftarrow> cs]"
proof -
  let ?s1 = "s\<lparr>vectors := vectors s @ [students (university s)]\<rparr>"
  have lt: "length (vectors s) < length (vectors ?s1)" by simp
  have "vectors (run ?s1 cs) ! length (vectors s) = vectors ?s1 ! length (vectors s)"
    using run_vectors [OF lt] by blast
  moreover have "students (university (run ?s1 cs)) =
      students (university ?s1) @ [p. AddStudent p \<leftarrow> cs]"
    by (rule run_students)
  ultimately show ?thesis by (simp add: getStudents_def)
qed

text \<open>
  C6. Starting from the empty registry that the constructor leaves, after
  \<^verbatim>\<open>addStudent\<close> has been called with the pointers \<open>ps\<close> in turn, the vector that
  \<^verbatim>\<open>getStudents()\<close> returns is \<open>ps\<close> itself: its length is the number of calls and
  its elements are in insertion order. The statement holds for every \<open>ps\<close>, so in
  particular when the pointers are distinct; nothing is dropped or merged when they
  are not.
\<close>

theorem addStudent_insertion_order:
  "case getStudents (foldl addStudent \<lparr>university = University_init, vectors = vs\<rparr> ps) of
     (i, s') \<Rightarrow> vectors s' ! i = ps \<and> length (vectors s' ! i) = length ps"
  by (simp add: foldl_addStudent getStudents_def University_init_def)

text \<open>
  C7. A builder on which no setter has been called builds a Student with no
  categories and the flag false. For every builder \<open>B\<close>, in every state:
  \<^verbatim>\<open>B.setCategories({"Math"}).build()\<close> followed by
  \<^verbatim>\<open>B.setCategories({"Physics"}).build()\<close> gives two different Students, the first
  with the categories Math and the second with Physics; the first one is the same
  after the second pair of calls as before it; both carry the flag the builder had
  all along (nothing is reset by \<^verbatim>\<open>build\<close>); and both setters return the builder
  they were called on, so that a \<^verbatim>\<open>build\<close> chained to a setter sees the value set.
\<close>

theorem builder_reuse:
  "(case build h (bs(B := BasicStudentBuilder_init)) B of
      (p, h') \<Rightarrow> getCategories h' p = Some [] \<and> hasTestToSkipLevels h' p = Some False) \<and>
   (case setCategories bs B [''Math''] of (r1, bs1) \<Rightarrow>
    case build h bs1 r1 of (p1, h1) \<Rightarrow>
    case setCategories bs1 B [''Physics''] of (r2, bs2) \<Rightarrow>
    case build h1 bs2 r2 of (p2, h2) \<Rightarrow>
      r1 = B \<and> r2 = B \<and> p1 \<noteq> p2 \<and>
      getCategories h1 p1 = Some [''Math''] \<and>
      hasTestToSkipLevels h1 p1 = Some (testToSkipLevels (bs B)) \<and>
      getCategories h2 p2 = Some [''Physics''] \<and>
      hasTestToSkipLevels h2 p2 = Some (testToSkipLevels (bs B)) \<and>
      getCategories h2 p1 = Some [''Math''] \<and>
      hasTestToSkipLevels h2 p1 = Some (testToSkipLevels (bs B)) \<and>
      deref h2 p1 = deref h1 p1) \<and>
   (case setTestToSkipLevels bs B F of (r, bs') \<Rightarrow>
    case build h bs' r of (p, h') \<Rightarrow>
      r = B \<and> getCategories h' p = Some (categories (bs B)) \<and>
      hasTestToSkipLevels h' p = Some F)"
proof -
  let ?t = "testToSkipLevels (bs B)"
  let ?m = "BasicStudent [''Math''] ?t"
  let ?p = "BasicStudent [''Physics''] ?t"
  let ?f = "BasicStudent (categories (bs B)) F"
  have d0: "deref (h @ [BasicStudent [] False]) (ptr (length h)) = Some (BasicStudent [] False)"
    by simp
  have d1: "deref (h @ [?m]) (ptr (length h)) = Some ?m"
    by simp
  have d2: "deref ((h @ [?m]) @ [?p]) (ptr (length (h @ [?m]))) = Some ?p"
    by (rule deref_new)
  have d3: "deref ((h @ [?m]) @ [?p]) (ptr (length h)) = Some ?m"
    using d1 by (rule deref_old)
  have d4: "deref (h @ [?f]) (ptr (length h)) = Some ?f"
    by simp
  show ?thesis
    unfolding setCategories_def setTestToSkipLevels_def build_def make_shared_def
      BasicStudentBuilder_init_def
    using d0 d1 d2 d3
      getCategories_BasicStudent [OF d0] hasTestToSkipLevels_BasicStudent [OF d0]
      getCategories_BasicStudent [OF d1] hasTestToSkipLevels_BasicStudent [OF d1]
      getCategories_BasicStudent [OF d2] hasTestToSkipLevels_BasicStudent [OF d2]
      getCategories_BasicStudent [OF d3] hasTestToSkipLevels_BasicStudent [OF d3]
      getCategories_BasicStudent [OF d4] hasTestToSkipLevels_BasicStudent [OF d4]
    by simp
qed

text \<open>
  C8. For a \<^verbatim>\<open>BasicStudent\<close> \<open>S\<close> at address \<open>a\<close>, \<^verbatim>\<open>S.clone()\<close> returns a pointer to
  a newly allocated object, at an address that held nothing before and is not \<open>a\<close>,
  with the categories and the flag of \<open>S\<close>. Whatever object \<open>obj\<close> is afterwards
  written over the clone, \<open>S\<close> still reports its own categories and flag: the two
  share no storage.
\<close>

theorem BasicStudent_clone_independent:
  assumes "deref h (ptr a) = Some (BasicStudent c t)"
  shows "clone h (ptr a) = Some (ptr (length h), h @ [BasicStudent c t]) \<and>
         ptr (length h) \<noteq> ptr a \<and>
         deref h (ptr (length h)) = None \<and>
         getCategories (h @ [BasicStudent c t]) (ptr (length h)) = Some c \<and>
         hasTestToSkipLevels (h @ [BasicStudent c t]) (ptr (length h)) = Some t \<and>
         getCategories ((h @ [BasicStudent c t])[length h := obj]) (ptr a) = Some c \<and>
         hasTestToSkipLevels ((h @ [BasicStudent c t])[length h := obj]) (ptr a) = Some t"
proof -
  have a: "a < length h" and ha: "h ! a = BasicStudent c t"
    using deref_valid [OF assms] by simp_all
  have new: "deref (h @ [BasicStudent c t]) (ptr (length h)) = Some (BasicStudent c t)"
    by simp
  have old: "deref ((h @ [BasicStudent c t])[length h := obj]) (ptr a) = Some (BasicStudent c t)"
    using a ha by (simp add: nth_append)
  show ?thesis
    using a clone_BasicStudent [OF assms]
      getCategories_BasicStudent [OF new] hasTestToSkipLevels_BasicStudent [OF new]
      getCategories_BasicStudent [OF old] hasTestToSkipLevels_BasicStudent [OF old]
    by (simp add: make_shared_def)
qed

theorem BasicStudent_clone_independent_witness:
  "deref main_heap (ptr 0) = Some (BasicStudent [''Math'', ''Physics''] True) \<and>
   clone main_heap (ptr 0) =
     Some (ptr (length main_heap), main_heap @ [BasicStudent [''Math'', ''Physics''] True]) \<and>
   getCategories ((main_heap @ [BasicStudent [''Math'', ''Physics''] True])
        [length main_heap := BasicStudent [''History''] False]) (ptr 0)
     = Some [''Math'', ''Physics''] \<and>
   hasTestToSkipLevels ((main_heap @ [BasicStudent [''Math'', ''Physics''] True])
        [length main_heap := BasicStudent [''History''] False]) (ptr 0)
     = Some True"
proof -
  have d: "deref main_heap (ptr 0) = Some (BasicStudent [''Math'', ''Physics''] True)"
    by (simp add: main_heap_def)
  show ?thesis
    using d BasicStudent_clone_independent [OF d, of "BasicStudent [''History''] False"]
    by blast
qed

text \<open>
  C9. For a chain of decorators of any depth and any mix of the two decorator
  classes, from the outermost wrapper \<open>p\<close> down to the innermost \<^verbatim>\<open>BasicStudent\<close>
  at address \<open>a\<close>: \<^verbatim>\<open>p->clone()\<close> is the clone of that innermost object, a newly
  allocated \<^verbatim>\<open>BasicStudent\<close> with its members. No layer of the chain is kept.
\<close>

theorem clone_strips_every_layer:
  assumes "innermost h p a"
  shows "\<exists>c t. deref h (ptr a) = Some (BasicStudent c t) \<and>
           clone h p = clone h (ptr a) \<and>
           clone h p = Some (ptr (length h), h @ [BasicStudent c t])"
proof -
  obtain c t where b: "deref h (ptr a) = Some (BasicStudent c t)"
    using innermost_basic [OF assms] by blast
  have "clone h p = clone h (ptr a)"
    using assms by (rule innermost_clone)
  moreover have "clone h (ptr a) = Some (ptr (length h), h @ [BasicStudent c t])"
    using clone_BasicStudent [OF b] by (simp add: make_shared_def)
  ultimately show ?thesis using b by simp
qed

text \<open>The witness is a chain three layers deep, built by \<open>decorate\<close>.\<close>

theorem clone_strips_every_layer_witness:
  "innermost (snd (decorate [True, False, True] [BasicStudent [''Math''] False] (ptr 0)))
      (fst (decorate [True, False, True] [BasicStudent [''Math''] False] (ptr 0))) 0 \<and>
   (\<exists>c t. deref (snd (decorate [True, False, True] [BasicStudent [''Math''] False] (ptr 0)))
             (ptr 0) = Some (BasicStudent c t) \<and>
      clone (snd (decorate [True, False, True] [BasicStudent [''Math''] False] (ptr 0)))
            (fst (decorate [True, False, True] [BasicStudent [''Math''] False] (ptr 0))) =
      clone (snd (decorate [True, False, True] [BasicStudent [''Math''] False] (ptr 0))) (ptr 0) \<and>
      clone (snd (decorate [True, False, True] [BasicStudent [''Math''] False] (ptr 0)))
            (fst (decorate [True, False, True] [BasicStudent [''Math''] False] (ptr 0))) =
      Some (ptr (length (snd (decorate [True, False, True] [BasicStudent [''Math''] False] (ptr 0)))),
            snd (decorate [True, False, True] [BasicStudent [''Math''] False] (ptr 0))
              @ [BasicStudent c t]))"
proof -
  let ?d = "decorate [True, False, True] [BasicStudent [''Math''] False] (ptr 0)"
  have b: "innermost [BasicStudent [''Math''] False] (ptr 0) 0"
    by (rule innermost.basic [of _ _ "[''Math'']" False]) simp
  have i: "innermost (snd ?d) (fst ?d) 0"
    using innermost_decorate [OF b, of "[True, False, True]" "fst ?d" "snd ?d"]
    by (simp only: prod.collapse)
  show ?thesis using i clone_strips_every_layer [OF i] by blast
qed

text \<open>
  C10. For every Student \<open>S\<close> (any chain of \<^verbatim>\<open>StudentDecorator\<close> and
  \<^verbatim>\<open>TutoringSupportDecorator\<close> layers over a \<^verbatim>\<open>BasicStudent\<close>) and any two course
  names \<open>c1\<close> and \<open>c2\<close>, \<^verbatim>\<open>S->canTakeCourse(c1)\<close> and \<^verbatim>\<open>S->canTakeCourse(c2)\<close>
  return, and return the same value.
\<close>

theorem canTakeCourse_ignores_course:
  assumes "innermost h S a"
  shows "canTakeCourse h S c1 = canTakeCourse h S c2 \<and> canTakeCourse h S c1 \<noteq> None"
  using innermost_canTakeCourse [OF assms] by simp

theorem canTakeCourse_ignores_course_witness:
  "innermost main_heap (ptr 1) 0 \<and>
   canTakeCourse main_heap (ptr 1) [] =
     canTakeCourse main_heap (ptr 1) ''Advanced Quantum Mechanics'' \<and>
   canTakeCourse main_heap (ptr 1) [] \<noteq> None"
proof -
  have b: "innermost main_heap (ptr 0) 0"
    by (rule innermost.basic [of _ _ "[''Math'', ''Physics'']" True]) (simp add: main_heap_def)
  have d: "deref main_heap (ptr 1) = Some (TutoringSupportDecorator (ptr 0))"
    by (simp add: main_heap_def)
  have i: "innermost main_heap (ptr 1) 0"
    using d b by (rule innermost.tutoring)
  show ?thesis
    using i canTakeCourse_ignores_course [OF i, of "[]" "''Advanced Quantum Mechanics''"]
    by blast
qed

end
